theory Spec2Isabelle
  imports Main "HOL-Library.Sublist"
begin

section \<open>Data: text, bytes, JSON values, spaces, responses, errors\<close>

text \<open>
  A Python \<^verbatim>\<open>str\<close> is a list of code points and a \<^verbatim>\<open>bytes\<close> value a list of bytes, both
  as natural numbers; a number from 256 on is no byte, and a decoder refuses it as it
  refuses an invalid byte. \<open>ch\<close> is the code point of an ASCII character and \<open>lit\<close> the
  text of an ASCII literal of the script.
\<close>

type_synonym str = "nat list"

type_synonym bytes = "nat list"

definition ch :: "char \<Rightarrow> nat" where
  "ch c = of_char c"

definition lit :: "string \<Rightarrow> nat list" where
  "lit s = map of_char s"

text \<open>
  The script \<^verbatim>\<open>export_kibana.py\<close> handles three kinds of data: JSON values (what
  \<^verbatim>\<open>json.loads\<close> returns and \<^verbatim>\<open>json.dump\<close> takes), the space objects listed by the
  server, and HTTP responses. A Python \<^verbatim>\<open>dict\<close> read from JSON is an association list
  with distinct keys, in insertion order; a float is kept as its literal, since the
  script never computes with one.
\<close>

datatype json =
    JNull
  | JBool bool
  | JInt int
  | JFloat str
  | JStr str
  | JArr "json list"
  | JObj "(str \<times> json) list"

text \<open>
  A space is \<^verbatim>\<open>{id: string, ...other server-provided fields}\<close>: \<^verbatim>\<open>space['id']\<close> is the
  field \<open>space_id\<close>, and the whole object, as \<^verbatim>\<open>json.dump\<close> sees it, is \<open>space_json\<close>.
\<close>

record space =
  space_id :: str
  space_other :: "(str \<times> json) list"

definition space_json :: "space \<Rightarrow> json" where
  "space_json s = JObj ((lit ''id'', JStr (space_id s)) # space_other s)"

text \<open>
  The exceptions that leave a function of the script. \<open>SystemExit\<close> is what the builtin
  \<^verbatim>\<open>exit(1)\<close> raises; \<open>AttributeError\<close> is a method called on a value that lacks it
  (\<^verbatim>\<open>.get\<close> on a value that is no dict, \<^verbatim>\<open>.replace\<close> on one that is no str);
  \<open>UnicodeDecodeError\<close> and \<open>UnicodeEncodeError\<close> come from a file opened in text mode;
  \<open>ConnectionError\<close> stands for a request that brings no response, and
  \<open>JSONDecodeError\<close> for a response body that \<^verbatim>\<open>response.json()\<close> cannot read.
\<close>

datatype error =
    FileNotFoundError str
  | AttributeError str
  | HTTPError str
  | UnicodeDecodeError
  | UnicodeEncodeError
  | ConnectionError str
  | JSONDecodeError str
  | SystemExit int

text \<open>
  A \<^verbatim>\<open>requests.Response\<close>: the fields the script reads. \<open>json_body\<close> is what
  \<^verbatim>\<open>response.json()\<close> returns for the space listing, or the exception it raises; a
  listing that is read is a list of spaces, as the data model has them.
\<close>

record response =
  status_code :: nat
  reason :: str
  url_of :: str
  content :: bytes
  text_of :: str
  json_body :: "error + space list"

text \<open>
  The server, as the session sees it: for each request a response, or the exception
  that \<^verbatim>\<open>session.get\<close> or \<^verbatim>\<open>session.post\<close> raises.
\<close>

record session =
  http_get :: "str \<Rightarrow> error + response"
  http_post :: "str \<Rightarrow> json \<Rightarrow> error + response"

text \<open>
  The parts of a run that belong to Python's standard library, not to the script, are
  parameters of the model: the JSON decoder (\<open>Inl\<close> carries the text of the
  \<^verbatim>\<open>JSONDecodeError\<close>), the JSON encoder with its \<^verbatim>\<open>indent\<close> and \<^verbatim>\<open>ensure_ascii\<close>
  arguments, as the pieces of text that \<^verbatim>\<open>JSONEncoder.iterencode\<close> yields and
  \<^verbatim>\<open>json.dump\<close> writes one by one, and the text an f-string shows for the value of
  \<^verbatim>\<open>--types\<close>. \<^verbatim>\<open>json.dumps\<close> returns the pieces joined. A call of the decoder
  returns a value or raises \<^verbatim>\<open>JSONDecodeError\<close>: the limits of the interpreter (the depth
  of recursion, the digits of an integer, memory) are outside the model.
\<close>

record lib =
  loads :: "str \<Rightarrow> str + json"
  iterencode :: "nat option \<Rightarrow> bool \<Rightarrow> json \<Rightarrow> str list"
  str_types :: "str list option \<Rightarrow> str"

definition dumps :: "lib \<Rightarrow> nat option \<Rightarrow> bool \<Rightarrow> json \<Rightarrow> str" where
  "dumps L indent ensure_ascii v = concat (iterencode L indent ensure_ascii v)"

section \<open>The world: files, standard output, the log\<close>

text \<open>
  The file system is a map from paths to contents, in bytes: a directory can always be
  created and a file can always be opened for writing, while reading a path that holds
  no file raises \<open>FileNotFoundError\<close>. A file is the path it was opened with: two paths
  that name one file on disk are not identified. \<open>stdout\<close> has one entry for each
  \<^verbatim>\<open>print\<close>, \<open>logged\<close> one for each call of \<^verbatim>\<open>logging.info\<close> or \<^verbatim>\<open>logging.error\<close>; both
  take every text.
\<close>

datatype level = INFO | ERROR

record world =
  files :: "str \<rightharpoonup> bytes"
  stdout :: "str list"
  logged :: "(level \<times> str) list"

type_synonym 'a io = "world \<Rightarrow> (error + 'a) \<times> world"

definition print :: "str \<Rightarrow> world \<Rightarrow> world" where
  "print s w = w\<lparr>stdout := stdout w @ [s]\<rparr>"

definition logging_info :: "str \<Rightarrow> world \<Rightarrow> world" where
  "logging_info s w = w\<lparr>logged := logged w @ [(INFO, s)]\<rparr>"

definition logging_error :: "str \<Rightarrow> world \<Rightarrow> world" where
  "logging_error s w = w\<lparr>logged := logged w @ [(ERROR, s)]\<rparr>"

definition write_file :: "str \<Rightarrow> bytes \<Rightarrow> world \<Rightarrow> world" where
  "write_file path data w = w\<lparr>files := (files w)(path \<mapsto> data)\<rparr>"

section \<open>Text files: UTF-8\<close>

text \<open>
  Reading a file opened with \<^verbatim>\<open>encoding='utf-8'\<close> decodes its bytes strictly: a
  sequence that is overlong, truncated, a surrogate or beyond \<^verbatim>\<open>U+10FFFF\<close> raises
  \<open>UnicodeDecodeError\<close>. \<open>utf8_next\<close> reads one code point, from its first byte and the
  bytes after it.
\<close>

definition cont :: "nat \<Rightarrow> bool" where
  "cont b \<longleftrightarrow> 0x80 \<le> b \<and> b \<le> 0xBF"

definition second_ok :: "nat \<Rightarrow> nat \<Rightarrow> bool" where
  "second_ok b b1 \<longleftrightarrow>
     (if b = 0xE0 then 0xA0 \<le> b1 \<and> b1 \<le> 0xBF
      else if b = 0xED then 0x80 \<le> b1 \<and> b1 \<le> 0x9F
      else if b = 0xF0 then 0x90 \<le> b1 \<and> b1 \<le> 0xBF
      else if b = 0xF4 then 0x80 \<le> b1 \<and> b1 \<le> 0x8F
      else cont b1)"

definition utf8_next :: "nat \<Rightarrow> bytes \<Rightarrow> (nat \<times> bytes) option" where
  "utf8_next b bs =
     (if b < 0x80 then Some (b, bs)
      else if 0xC2 \<le> b \<and> b \<le> 0xDF then
        (case bs of
           b1 # r \<Rightarrow>
             if cont b1 then Some ((b - 0xC0) * 64 + (b1 - 0x80), r) else None
         | _ \<Rightarrow> None)
      else if 0xE0 \<le> b \<and> b \<le> 0xEF then
        (case bs of
           b1 # b2 # r \<Rightarrow>
             if second_ok b b1 \<and> cont b2
             then Some ((b - 0xE0) * 4096 + (b1 - 0x80) * 64 + (b2 - 0x80), r) else None
         | _ \<Rightarrow> None)
      else if 0xF0 \<le> b \<and> b \<le> 0xF4 then
        (case bs of
           b1 # b2 # b3 # r \<Rightarrow>
             if second_ok b b1 \<and> cont b2 \<and> cont b3
             then Some ((b - 0xF0) * 262144 + (b1 - 0x80) * 4096 + (b2 - 0x80) * 64
                          + (b3 - 0x80), r)
             else None
         | _ \<Rightarrow> None)
      else None)"

lemma utf8_next_shorter: "utf8_next b bs = Some (c, r) \<Longrightarrow> length r \<le> length bs"
  by (auto simp: utf8_next_def split: if_splits list.splits)

function utf8_decode :: "bytes \<Rightarrow> str option" where
  "utf8_decode [] = Some []"
| "utf8_decode (b # bs) =
     (case utf8_next b bs of
        None \<Rightarrow> None
      | Some (c, r) \<Rightarrow> map_option ((#) c) (utf8_decode r))"
  by pat_completeness auto
termination
proof (relation "measure length")
  show "wf (measure length)" by simp
next
  fix b :: nat and bs :: bytes and x2 :: "nat \<times> bytes" and c :: nat and r :: bytes
  assume "utf8_next b bs = Some x2" and "(c, r) = x2"
  then have "utf8_next b bs = Some (c, r)" by simp
  then have "length r \<le> length bs" by (rule utf8_next_shorter)
  then show "(r, b # bs) \<in> measure length" by simp
qed

text \<open>
  Writing to a file opened in text mode encodes each piece of text as it is written: a
  code point that is a surrogate cannot be encoded. \<open>write_text\<close> is
  \<^verbatim>\<open>with open(path, 'w') as f\<close> around the calls of \<^verbatim>\<open>f.write\<close> that \<^verbatim>\<open>json.dump\<close> makes, one
  for each piece: opening creates or empties the file, the first piece that cannot be
  encoded raises \<open>UnicodeEncodeError\<close>, and the pieces written before it stay in the
  file. Line 47 opens its file with the encoding of the locale, taken to be UTF-8 too;
  a newline is written as it is.
\<close>

definition encodable :: "str \<Rightarrow> bool" where
  "encodable s = list_all (\<lambda>c. c < 0xD800 \<or> (0xDFFF < c \<and> c < 0x110000)) s"

definition utf8_encode_char :: "nat \<Rightarrow> bytes" where
  "utf8_encode_char c =
     (if c < 0x80 then [c]
      else if c < 0x800 then [0xC0 + c div 64, 0x80 + c mod 64]
      else if c < 0x10000 then [0xE0 + c div 4096, 0x80 + c div 64 mod 64, 0x80 + c mod 64]
      else [0xF0 + c div 262144, 0x80 + c div 4096 mod 64, 0x80 + c div 64 mod 64,
            0x80 + c mod 64])"

definition utf8_encode :: "str \<Rightarrow> bytes" where
  "utf8_encode s = concat (map utf8_encode_char s)"

definition write_text :: "str \<Rightarrow> str list \<Rightarrow> unit io" where
  "write_text path chunks w =
     (let written = takeWhile encodable chunks;
          w' = write_file path (utf8_encode (concat written)) w
      in if length written < length chunks then (Inl UnicodeEncodeError, w') else (Inr (), w'))"

section \<open>String operations of Python used by the script\<close>

text \<open>\<^verbatim>\<open>str.isspace\<close> on one code point.\<close>

definition isspace :: "nat \<Rightarrow> bool" where
  "isspace c \<longleftrightarrow>
     (0x09 \<le> c \<and> c \<le> 0x0D) \<or> (0x1C \<le> c \<and> c \<le> 0x20) \<or> c = 0x85 \<or> c = 0xA0
     \<or> c = 0x1680 \<or> (0x2000 \<le> c \<and> c \<le> 0x200A) \<or> c = 0x2028 \<or> c = 0x2029
     \<or> c = 0x202F \<or> c = 0x205F \<or> c = 0x3000"

text \<open>The line boundaries of \<^verbatim>\<open>str.splitlines\<close>.\<close>

definition linebreak :: "nat \<Rightarrow> bool" where
  "linebreak c \<longleftrightarrow>
     (0x0A \<le> c \<and> c \<le> 0x0D) \<or> (0x1C \<le> c \<and> c \<le> 0x1E) \<or> c = 0x85
     \<or> c = 0x2028 \<or> c = 0x2029"

definition strip :: "str \<Rightarrow> str" where
  "strip s = rev (dropWhile isspace (rev (dropWhile isspace s)))"

text \<open>
  What follows a line: the boundary character is dropped, and \<^verbatim>\<open>\r\n\<close> counts as one
  boundary.
\<close>

fun after_break :: "str \<Rightarrow> str" where
  "after_break [] = []"
| "after_break [c] = []"
| "after_break (c # d # s) = (if c = 0x0D \<and> d = 0x0A then s else d # s)"

lemma length_after_break: "length (after_break s) \<le> length s - 1"
  by (induction s rule: after_break.induct) auto

function splitlines :: "str \<Rightarrow> str list" where
  "splitlines [] = []"
| "splitlines (c # s) =
     takeWhile (\<lambda>x. \<not> linebreak x) (c # s)
       # splitlines (after_break (dropWhile (\<lambda>x. \<not> linebreak x) (c # s)))"
  by pat_completeness auto
termination
proof (relation "measure length")
  show "wf (measure length)" by simp
next
  fix c :: nat and s :: str
  have "length (after_break (dropWhile (\<lambda>x. \<not> linebreak x) (c # s)))
          \<le> length (dropWhile (\<lambda>x. \<not> linebreak x) (c # s)) - 1"
    by (rule length_after_break)
  also have "\<dots> \<le> length (c # s) - 1"
    using length_dropWhile_le [of "\<lambda>x. \<not> linebreak x" "c # s"] by arith
  finally show "(after_break (dropWhile (\<lambda>x. \<not> linebreak x) (c # s)), c # s) \<in> measure length"
    by simp
qed

text \<open>
  Reading a file in text mode translates \<^verbatim>\<open>\r\n\<close> and a lone \<^verbatim>\<open>\r\<close> to \<^verbatim>\<open>\n\<close>.
\<close>

fun universal_newlines :: "str \<Rightarrow> str" where
  "universal_newlines [] = []"
| "universal_newlines [c] = (if c = 0x0D then [0x0A] else [c])"
| "universal_newlines (c # d # s) =
     (if c = 0x0D \<and> d = 0x0A then 0x0A # universal_newlines s
      else if c = 0x0D then 0x0A # universal_newlines (d # s)
      else c # universal_newlines (d # s))"

text \<open>\<^verbatim>\<open>s.replace(a, b)\<close> for one-character \<open>a\<close> and \<open>b\<close>.\<close>

definition replace :: "nat \<Rightarrow> nat \<Rightarrow> str \<Rightarrow> str" where
  "replace a b s = map (\<lambda>c. if c = a then b else c) s"

text \<open>\<^verbatim>\<open>sep.join(xs)\<close>.\<close>

fun join :: "str \<Rightarrow> str list \<Rightarrow> str" where
  "join sep [] = []"
| "join sep [x] = x"
| "join sep (x # y # xs) = x @ sep @ join sep (y # xs)"

text \<open>The decimal text of a natural number, as an f-string shows it.\<close>

definition digit :: "nat \<Rightarrow> nat" where
  "digit d = ch CHR ''0'' + d"

fun str_nat :: "nat \<Rightarrow> str" where
  "str_nat n = (if n < 10 then [digit n] else str_nat (n div 10) @ [digit (n mod 10)])"

declare str_nat.simps [simp del]

text \<open>\<^verbatim>\<open>os.path.join(a, b)\<close> on POSIX.\<close>

definition path_join :: "str \<Rightarrow> str \<Rightarrow> str" where
  "path_join a b =
     (if b \<noteq> [] \<and> hd b = ch CHR ''/'' then b
      else if a = [] \<or> last a = ch CHR ''/'' then a @ b
      else a @ lit ''/'' @ b)"

text \<open>
  \<^verbatim>\<open>d.get(key, default)\<close>: only a dict has the method.
\<close>

definition dict_get :: "json \<Rightarrow> str \<Rightarrow> json \<Rightarrow> error + json" where
  "dict_get d key dflt =
     (case d of
        JObj kvs \<Rightarrow> (case map_of kvs key of Some v \<Rightarrow> Inr v | None \<Rightarrow> Inr dflt)
      | _ \<Rightarrow> Inl (AttributeError (lit ''get'')))"

section \<open>The NDJSON splitter\<close>

text \<open>
  \<^verbatim>\<open>parse_nonstandard_json\<close>, lines 14 to 25. \<open>parse_lines\<close> is its \<^verbatim>\<open>for\<close> loop over
  the lines, with the list \<open>documents\<close> it appends to. In the message of line 24 the
  backslash before \<^verbatim>\<open>O\<close> starts no escape, and is printed.
\<close>

definition parse_error_message :: "str \<Rightarrow> str \<Rightarrow> str" where
  "parse_error_message e obj = lit ''Error during parsing: '' @ e @ [0x5C] @ lit ''Object: '' @ obj"

fun parse_lines :: "lib \<Rightarrow> str list \<Rightarrow> json list \<Rightarrow> world \<Rightarrow> json list \<times> world" where
  "parse_lines L [] documents w = (documents, w)"
| "parse_lines L (obj # json_objects) documents w =
     (if strip obj \<noteq> [] then
        (case loads L obj of
           Inr d \<Rightarrow> parse_lines L json_objects (documents @ [d]) w
         | Inl e \<Rightarrow> parse_lines L json_objects documents (print (parse_error_message e obj) w))
      else parse_lines L json_objects documents w)"

definition parse_nonstandard_json :: "lib \<Rightarrow> str \<Rightarrow> json list io" where
  "parse_nonstandard_json L file_path w =
     (case files w file_path of
        None \<Rightarrow> (Inl (FileNotFoundError file_path), w)
      | Some raw \<Rightarrow>
          (case utf8_decode raw of
             None \<Rightarrow> (Inl UnicodeDecodeError, w)
           | Some decoded \<Rightarrow>
               (let content = universal_newlines decoded;
                    json_objects = splitlines content
                in case parse_lines L json_objects [] w of
                     (documents, w') \<Rightarrow> (Inr documents, w'))))"

text \<open>
  \<^verbatim>\<open>parse_and_save_documents\<close>, lines 27 to 37. Line 32 is \<open>title_of\<close>, line 33 is
  \<open>sanitize\<close>, and \<open>output_file_of\<close> is the path of line 34, that lines 32 to 34 compute;
  \<open>save_document\<close> is the body of the loop, for the pair \<open>(i, doc)\<close> that
  \<^verbatim>\<open>enumerate\<close> yields, and \<open>for_each\<close> is a \<^verbatim>\<open>for\<close> loop that an exception leaves.
  \<^verbatim>\<open>os.makedirs(output_dir, exist_ok=True)\<close> changes no file.
\<close>

definition title_of :: "nat \<Rightarrow> json \<Rightarrow> error + json" where
  "title_of i doc =
     (case dict_get doc (lit ''attributes'') (JObj []) of
        Inl e \<Rightarrow> Inl e
      | Inr attributes \<Rightarrow>
          dict_get attributes (lit ''title'') (JStr (lit ''document_'' @ str_nat (i + 1))))"

definition sanitize :: "json \<Rightarrow> error + str" where
  "sanitize title =
     (case title of
        JStr t \<Rightarrow> Inr (replace (ch CHR ''/'') (ch CHR ''_'') (replace (ch CHR '' '') (ch CHR ''_'') t))
      | _ \<Rightarrow> Inl (AttributeError (lit ''replace'')))"

definition output_file_of :: "str \<Rightarrow> nat \<Rightarrow> json \<Rightarrow> error + str" where
  "output_file_of output_dir i doc =
     (case title_of i doc of
        Inl e \<Rightarrow> Inl e
      | Inr title \<Rightarrow>
          (case sanitize title of
             Inl e \<Rightarrow> Inl e
           | Inr sanitized_title \<Rightarrow> Inr (path_join output_dir (sanitized_title @ lit ''.json''))))"

definition save_document :: "lib \<Rightarrow> str \<Rightarrow> nat \<times> json \<Rightarrow> unit io" where
  "save_document L output_dir p w =
     (case p of (i, doc) \<Rightarrow>
        (case output_file_of output_dir i doc of
           Inl e \<Rightarrow> (Inl e, w)
         | Inr output_file \<Rightarrow>
             (case write_text output_file (iterencode L (Some 4) False doc) w of
                (Inl e, w') \<Rightarrow> (Inl e, w')
              | (Inr u, w') \<Rightarrow> (Inr (), print (lit ''Document saved: '' @ output_file) w'))))"

fun for_each :: "('a \<Rightarrow> unit io) \<Rightarrow> 'a list \<Rightarrow> unit io" where
  "for_each body [] w = (Inr (), w)"
| "for_each body (x # xs) w =
     (case body x w of
        (Inl e, w') \<Rightarrow> (Inl e, w')
      | (Inr u, w') \<Rightarrow> for_each body xs w')"

definition parse_and_save_documents :: "lib \<Rightarrow> str \<Rightarrow> str \<Rightarrow> unit io" where
  "parse_and_save_documents L input_file output_dir w =
     (case parse_nonstandard_json L input_file w of
        (Inl e, w') \<Rightarrow> (Inl e, w')
      | (Inr documents, w') \<Rightarrow>
          for_each (save_document L output_dir) (enumerate 0 documents) w')"

section \<open>Spaces: listing, validation, export\<close>

text \<open>
  \<^verbatim>\<open>Response.raise_for_status\<close> of requests: an \<open>HTTPError\<close> for a status from 400 to
  599, nothing otherwise.
\<close>

definition raise_for_status :: "response \<Rightarrow> error + unit" where
  "raise_for_status r =
     (if 400 \<le> status_code r \<and> status_code r < 500 then
        Inl (HTTPError (str_nat (status_code r) @ lit '' Client Error: '' @ reason r
                          @ lit '' for url: '' @ url_of r))
      else if 500 \<le> status_code r \<and> status_code r < 600 then
        Inl (HTTPError (str_nat (status_code r) @ lit '' Server Error: '' @ reason r
                          @ lit '' for url: '' @ url_of r))
      else Inr ())"

text \<open>\<^verbatim>\<open>get_spaces\<close>, lines 39 to 43.\<close>

definition get_spaces :: "session \<Rightarrow> str \<Rightarrow> space list io" where
  "get_spaces session url w =
     (case http_get session (url @ lit ''/api/spaces/space'') of
        Inl e \<Rightarrow> (Inl e, w)
      | Inr response \<Rightarrow>
          (case raise_for_status response of
             Inl e \<Rightarrow> (Inl e, w)
           | Inr u \<Rightarrow>
               (case json_body response of
                  Inl e \<Rightarrow> (Inl e, w)
                | Inr spaces \<Rightarrow> (Inr spaces, w))))"

text \<open>\<^verbatim>\<open>export_space_details\<close>, lines 45 to 49.\<close>

definition export_space_details :: "lib \<Rightarrow> space list \<Rightarrow> str \<Rightarrow> unit io" where
  "export_space_details L spaces export_dir w =
     (case write_text (path_join export_dir (lit ''spaces_details.json''))
             (iterencode L None True (JArr (map space_json spaces))) w of
        (Inl e, w') \<Rightarrow> (Inl e, w')
      | (Inr u, w') \<Rightarrow> (Inr (), logging_info (lit ''Exported space details.'') w'))"

text \<open>
  \<^verbatim>\<open>export_objects\<close>, lines 51 to 67: \<open>export_url\<close> is line 54 and \<open>export_params\<close>
  line 55. The request is made before the \<^verbatim>\<open>try\<close>, and the \<^verbatim>\<open>except\<close> clause catches an
  \<open>HTTPError\<close> only. The file of line 65 is opened for bytes.
\<close>

definition export_url :: "str \<Rightarrow> str \<Rightarrow> str" where
  "export_url url sid = url @ lit ''/s/'' @ sid @ lit ''/api/saved_objects/_export''"

definition export_params :: "str list option \<Rightarrow> json" where
  "export_params object_types =
     JObj [(lit ''type'',
            JArr (map JStr (case object_types of
                              None \<Rightarrow> [lit ''*'']
                            | Some ts \<Rightarrow> if ts \<noteq> [] then ts else [lit ''*''])))]"

definition export_objects ::
    "lib \<Rightarrow> session \<Rightarrow> str \<Rightarrow> str \<Rightarrow> space \<Rightarrow> str list option \<Rightarrow> unit io" where
  "export_objects L session url export_dir space object_types w =
     (let w1 = logging_info (lit ''object_types: '' @ str_types L object_types) w;
          sid = space_id space;
          params = export_params object_types;
          w2 = logging_info (lit ''Requesting URL: '' @ export_url url sid
                               @ lit '' with params: '' @ dumps L None True params) w1
      in case http_post session (export_url url sid) params of
           Inl e \<Rightarrow> (Inl e, w2)
         | Inr response \<Rightarrow>
             (case raise_for_status response of
                Inl (HTTPError e) \<Rightarrow>
                  (Inr (),
                   logging_error (lit ''Response was: '' @ text_of response)
                     (logging_error
                        (lit ''Failed to export objects for space '' @ sid @ lit '': '' @ e) w2))
              | Inl e \<Rightarrow> (Inl e, w2)
              | Inr u \<Rightarrow>
                  (let file_path = path_join export_dir (sid @ lit ''.json'')
                   in (Inr (),
                       logging_info
                         (lit ''Export successful for space '' @ sid @ lit '': '' @ file_path)
                         (write_file file_path (content response) w2)))))"

text \<open>
  \<^verbatim>\<open>validate_spaces\<close>, lines 69 to 78. \<open>spaces\<close> is the value of \<^verbatim>\<open>--spaces\<close>: \<open>None\<close>
  when the option is omitted.
\<close>

definition validate_spaces :: "str list option \<Rightarrow> space list \<Rightarrow> unit io" where
  "validate_spaces spaces all_spaces w =
     (let valid_spaces = map space_id all_spaces;
          invalid_spaces =
            (case spaces of
               None \<Rightarrow> []
             | Some ss \<Rightarrow> if ss \<noteq> [] then filter (\<lambda>s. s \<notin> set valid_spaces) ss else []);
          w1 = (if invalid_spaces \<noteq> [] then
                  logging_error (lit ''The following specified spaces do not exist: ''
                                   @ join (lit '', '') invalid_spaces) w
                else w)
      in if invalid_spaces \<noteq> [] then
           (Inl (SystemExit 1), logging_error (lit ''Exiting due to invalid input.'') w1)
         else (Inr (), w1))"

section \<open>The main program\<close>

text \<open>
  The command line, as \<^verbatim>\<open>argparse\<close> returns it. The password prompt and the set-up of
  the session (lines 92 to 96) decide what the server answers, which is the \<open>session\<close>
  of the model; creating the export directory (lines 98 and 99) changes no file.
\<close>

record args =
  arg_kibana_url :: str
  arg_username :: str
  arg_export_dir :: str
  arg_types :: "str list option"
  arg_spaces :: "str list option"

text \<open>Line 105: the spaces the run exports.\<close>

definition spaces_to_export :: "str list option \<Rightarrow> space list \<Rightarrow> space list" where
  "spaces_to_export spaces all_spaces =
     (case spaces of
        None \<Rightarrow> all_spaces
      | Some ss \<Rightarrow>
          if ss = [] then all_spaces
          else filter (\<lambda>space. space_id space \<in> set ss) all_spaces)"

text \<open>Lines 108 to 112: the body of the loop over the spaces to export.\<close>

definition export_and_split :: "lib \<Rightarrow> session \<Rightarrow> args \<Rightarrow> space \<Rightarrow> unit io" where
  "export_and_split L session a space w =
     (case export_objects L session (arg_kibana_url a) (arg_export_dir a) space (arg_types a) w of
        (Inl e, w') \<Rightarrow> (Inl e, w')
      | (Inr u, w') \<Rightarrow>
          (let input_file = lit ''export/'' @ space_id space @ lit ''.json'';
               output_dir = lit ''output'' @ lit ''_'' @ space_id space
           in parse_and_save_documents L input_file output_dir w'))"

definition main :: "lib \<Rightarrow> session \<Rightarrow> args \<Rightarrow> unit io" where
  "main L session a w =
     (case get_spaces session (arg_kibana_url a) w of
        (Inl e, w1) \<Rightarrow> (Inl e, w1)
      | (Inr all_spaces, w1) \<Rightarrow>
          (case validate_spaces (arg_spaces a) all_spaces w1 of
             (Inl e, w2) \<Rightarrow> (Inl e, w2)
           | (Inr u, w2) \<Rightarrow>
               (let selected = spaces_to_export (arg_spaces a) all_spaces
                in case export_space_details L selected (arg_export_dir a) w2 of
                     (Inl e, w3) \<Rightarrow> (Inl e, w3)
                   | (Inr u, w3) \<Rightarrow> for_each (export_and_split L session a) selected w3)))"

section \<open>A decoder and an encoder for the examples\<close>

text \<open>
  The theorems below hold for every decoder and encoder. Their examples run on a
  concrete pair: \<open>sample_loads\<close> reads the JSON texts without fractions, exponents and
  \<^verbatim>\<open>\u\<close> escapes as \<^verbatim>\<open>json.loads\<close> does (a repeated key keeps its first place and its
  last value; a fixed text stands for the message of a \<^verbatim>\<open>JSONDecodeError\<close>, which in
  Python names the position too), and
  \<open>sample_dumps\<close> writes a value as \<^verbatim>\<open>json.dumps\<close> does, with or without \<^verbatim>\<open>indent\<close>;
  \<open>sample_iterencode\<close> yields that text in one piece. \<open>scan_value\<close> and its companions
  take the number of values they may still open.
\<close>

definition json_ws :: "nat \<Rightarrow> bool" where
  "json_ws c \<longleftrightarrow> c = 0x20 \<or> c = 0x09 \<or> c = 0x0A \<or> c = 0x0D"

definition skip_ws :: "str \<Rightarrow> str" where
  "skip_ws s = dropWhile json_ws s"

definition unescape :: "nat \<Rightarrow> nat option" where
  "unescape c =
     (if c = 0x22 \<or> c = 0x5C \<or> c = ch CHR ''/'' then Some c
      else if c = ch CHR ''n'' then Some 0x0A
      else if c = ch CHR ''r'' then Some 0x0D
      else if c = ch CHR ''t'' then Some 0x09
      else if c = ch CHR ''b'' then Some 0x08
      else if c = ch CHR ''f'' then Some 0x0C
      else None)"

fun scan_string :: "str \<Rightarrow> str \<Rightarrow> (str \<times> str) option" where
  "scan_string acc [] = None"
| "scan_string acc [c] = (if c = 0x22 then Some (acc, []) else None)"
| "scan_string acc (c # e # s) =
     (if c = 0x22 then Some (acc, e # s)
      else if c = 0x5C then
        (case unescape e of None \<Rightarrow> None | Some x \<Rightarrow> scan_string (acc @ [x]) s)
      else if c < 0x20 then None
      else scan_string (acc @ [c]) (e # s))"

definition is_digit :: "nat \<Rightarrow> bool" where
  "is_digit c \<longleftrightarrow> ch CHR ''0'' \<le> c \<and> c \<le> ch CHR ''9''"

definition int_of_digits :: "str \<Rightarrow> int" where
  "int_of_digits ds = foldl (\<lambda>a c. 10 * a + (int c - 48)) 0 ds"

definition scan_int :: "str \<Rightarrow> (json \<times> str) option" where
  "scan_int s =
     (let neg = (s \<noteq> [] \<and> hd s = ch CHR ''-'');
          t = (if neg then tl s else s);
          ds = takeWhile is_digit t;
          r = dropWhile is_digit t
      in if ds = [] \<or> (hd ds = ch CHR ''0'' \<and> length ds > 1) then None
         else if r \<noteq> [] \<and> hd r \<in> set (lit ''.eE'') then None
         else Some (JInt (if neg then - int_of_digits ds else int_of_digits ds), r))"

fun dict_set :: "str \<Rightarrow> json \<Rightarrow> (str \<times> json) list \<Rightarrow> (str \<times> json) list" where
  "dict_set k v [] = [(k, v)]"
| "dict_set k v (p # ps) = (if fst p = k then (k, v) # ps else p # dict_set k v ps)"

definition literal :: "str \<Rightarrow> json \<Rightarrow> str \<Rightarrow> (json \<times> str) option" where
  "literal name v s = (if take (length name) s = name then Some (v, drop (length name) s) else None)"

fun scan_value :: "nat \<Rightarrow> str \<Rightarrow> (json \<times> str) option"
and scan_elements :: "nat \<Rightarrow> json list \<Rightarrow> str \<Rightarrow> (json \<times> str) option"
and scan_members :: "nat \<Rightarrow> (str \<times> json) list \<Rightarrow> str \<Rightarrow> (json \<times> str) option" where
  "scan_value 0 s = None"
| "scan_value (Suc n) s =
     (case skip_ws s of
        [] \<Rightarrow> None
      | c # r \<Rightarrow>
          if c = ch CHR ''{'' then
            (case skip_ws r of
               [] \<Rightarrow> None
             | d # r' \<Rightarrow> if d = ch CHR ''}'' then Some (JObj [], r') else scan_members n [] r)
          else if c = ch CHR ''['' then
            (case skip_ws r of
               [] \<Rightarrow> None
             | d # r' \<Rightarrow> if d = ch CHR '']'' then Some (JArr [], r') else scan_elements n [] r)
          else if c = 0x22 then map_option (\<lambda>(t, r'). (JStr t, r')) (scan_string [] r)
          else if c = ch CHR ''n'' then literal (lit ''null'') JNull (c # r)
          else if c = ch CHR ''t'' then literal (lit ''true'') (JBool True) (c # r)
          else if c = ch CHR ''f'' then literal (lit ''false'') (JBool False) (c # r)
          else scan_int (c # r))"
| "scan_elements 0 acc s = None"
| "scan_elements (Suc n) acc s =
     (case scan_value n s of
        None \<Rightarrow> None
      | Some (v, r) \<Rightarrow>
          (case skip_ws r of
             [] \<Rightarrow> None
           | c # r' \<Rightarrow>
               if c = ch CHR '','' then scan_elements n (acc @ [v]) r'
               else if c = ch CHR '']'' then Some (JArr (acc @ [v]), r')
               else None))"
| "scan_members 0 acc s = None"
| "scan_members (Suc n) acc s =
     (case skip_ws s of
        [] \<Rightarrow> None
      | q # r \<Rightarrow>
          if q = 0x22 then
            (case scan_string [] r of
               None \<Rightarrow> None
             | Some (k, r1) \<Rightarrow>
                 (case skip_ws r1 of
                    [] \<Rightarrow> None
                  | c # r2 \<Rightarrow>
                      if c = ch CHR '':'' then
                        (case scan_value n r2 of
                           None \<Rightarrow> None
                         | Some (v, r3) \<Rightarrow>
                             (case skip_ws r3 of
                                [] \<Rightarrow> None
                              | d # r4 \<Rightarrow>
                                  if d = ch CHR '','' then scan_members n (dict_set k v acc) r4
                                  else if d = ch CHR ''}'' then Some (JObj (dict_set k v acc), r4)
                                  else None))
                      else None))
          else None)"

definition sample_loads :: "str \<Rightarrow> str + json" where
  "sample_loads s =
     (case scan_value (Suc (length s)) s of
        None \<Rightarrow> Inl (lit ''Expecting value'')
      | Some (v, r) \<Rightarrow> if skip_ws r = [] then Inr v else Inl (lit ''Extra data''))"

definition hexdigit :: "nat \<Rightarrow> nat" where
  "hexdigit d = (if d < 10 then ch CHR ''0'' + d else ch CHR ''a'' + (d - 10))"

definition hex4 :: "nat \<Rightarrow> str" where
  "hex4 n = [hexdigit (n div 4096 mod 16), hexdigit (n div 256 mod 16),
             hexdigit (n div 16 mod 16), hexdigit (n mod 16)]"

definition escape :: "bool \<Rightarrow> nat \<Rightarrow> str" where
  "escape ensure_ascii c =
     (if c = 0x22 then [0x5C, 0x22]
      else if c = 0x5C then [0x5C, 0x5C]
      else if c = 0x0A then [0x5C, ch CHR ''n'']
      else if c = 0x0D then [0x5C, ch CHR ''r'']
      else if c = 0x09 then [0x5C, ch CHR ''t'']
      else if c = 0x08 then [0x5C, ch CHR ''b'']
      else if c = 0x0C then [0x5C, ch CHR ''f'']
      else if c < 0x20 \<or> (ensure_ascii \<and> 0x7E < c \<and> c < 0x10000)
        then [0x5C, ch CHR ''u''] @ hex4 c
      else if ensure_ascii \<and> 0xFFFF < c
        then [0x5C, ch CHR ''u''] @ hex4 (0xD800 + (c - 0x10000) div 1024)
               @ [0x5C, ch CHR ''u''] @ hex4 (0xDC00 + (c - 0x10000) mod 1024)
      else [c])"

definition dq :: "str \<Rightarrow> str" where
  "dq s = [0x22] @ s @ [0x22]"

definition dump_str :: "bool \<Rightarrow> str \<Rightarrow> str" where
  "dump_str ensure_ascii s = dq (concat (map (escape ensure_ascii) s))"

definition str_int :: "int \<Rightarrow> str" where
  "str_int i = (if i < 0 then lit ''-'' @ str_nat (nat (- i)) else str_nat (nat i))"

definition newline_indent :: "nat \<Rightarrow> nat \<Rightarrow> str" where
  "newline_indent k level = 0x0A # replicate (k * level) 0x20"

definition brackets :: "nat option \<Rightarrow> nat \<Rightarrow> str \<Rightarrow> str \<Rightarrow> str list \<Rightarrow> str" where
  "brackets indent level l r items =
     (if items = [] then l @ r
      else case indent of
             None \<Rightarrow> l @ join (lit '', '') items @ r
           | Some k \<Rightarrow> l @ newline_indent k (level + 1)
                        @ join (lit '','' @ newline_indent k (level + 1)) items
                        @ newline_indent k level @ r)"

fun dump :: "nat option \<Rightarrow> bool \<Rightarrow> nat \<Rightarrow> json \<Rightarrow> str" where
  "dump indent ensure_ascii level JNull = lit ''null''"
| "dump indent ensure_ascii level (JBool b) = (if b then lit ''true'' else lit ''false'')"
| "dump indent ensure_ascii level (JInt i) = str_int i"
| "dump indent ensure_ascii level (JFloat r) = r"
| "dump indent ensure_ascii level (JStr s) = dump_str ensure_ascii s"
| "dump indent ensure_ascii level (JArr xs) =
     brackets indent level (lit ''['') (lit '']'') (map (dump indent ensure_ascii (level + 1)) xs)"
| "dump indent ensure_ascii level (JObj kvs) =
     brackets indent level (lit ''{'') (lit ''}'')
       (map (\<lambda>(k, v). dump_str ensure_ascii k @ lit '': '' @ dump indent ensure_ascii (level + 1) v)
          kvs)"

definition sample_dumps :: "nat option \<Rightarrow> bool \<Rightarrow> json \<Rightarrow> str" where
  "sample_dumps indent ensure_ascii v = dump indent ensure_ascii 0 v"

definition sample_iterencode :: "nat option \<Rightarrow> bool \<Rightarrow> json \<Rightarrow> str list" where
  "sample_iterencode indent ensure_ascii v = [sample_dumps indent ensure_ascii v]"

text \<open>The text of a list of plain strings, or of \<^verbatim>\<open>None\<close>, in an f-string.\<close>

definition sample_str_types :: "str list option \<Rightarrow> str" where
  "sample_str_types ts =
     (case ts of
        None \<Rightarrow> lit ''None''
      | Some xs \<Rightarrow> lit ''['' @ join (lit '', '') (map (\<lambda>x. [0x27] @ x @ [0x27]) xs) @ lit '']'')"

definition sample_lib :: lib where
  "sample_lib =
     \<lparr>loads = sample_loads, iterencode = sample_iterencode, str_types = sample_str_types\<rparr>"

section \<open>Notions of the specification\<close>

text \<open>
  The specification's words for a file name: the title with every space and every slash
  replaced by an underscore.
\<close>

definition sanitized :: "str \<Rightarrow> str" where
  "sanitized t = map (\<lambda>c. if c = ch CHR '' '' \<or> c = ch CHR ''/'' then ch CHR ''_'' else c) t"


definition doc_title :: "nat \<Rightarrow> json \<Rightarrow> str" where
  "doc_title i doc =
     (case doc of
        JObj kvs \<Rightarrow>
          (case map_of kvs (lit ''attributes'') of
             Some (JObj avs) \<Rightarrow>
               (case map_of avs (lit ''title'') of
                  Some (JStr t) \<Rightarrow> t
                | _ \<Rightarrow> lit ''document_'' @ str_nat (i + 1))
           | _ \<Rightarrow> lit ''document_'' @ str_nat (i + 1))
      | _ \<Rightarrow> lit ''document_'' @ str_nat (i + 1))"

definition well_titled :: "json \<Rightarrow> bool" where
  "well_titled doc =
     (case doc of
        JObj kvs \<Rightarrow>
          (case map_of kvs (lit ''attributes'') of
             None \<Rightarrow> True
           | Some (JObj avs) \<Rightarrow>
               (case map_of avs (lit ''title'') of
                  None \<Rightarrow> True
                | Some (JStr t) \<Rightarrow> True
                | Some other \<Rightarrow> False)
           | Some other \<Rightarrow> False)
      | _ \<Rightarrow> False)"

definition savable :: "lib \<Rightarrow> json \<Rightarrow> bool" where
  "savable L doc \<longleftrightarrow> well_titled doc \<and> list_all encodable (iterencode L (Some 4) False doc)"

definition name_of :: "str \<Rightarrow> nat \<times> json \<Rightarrow> str" where
  "name_of output_dir p =
     path_join output_dir (sanitized (doc_title (fst p) (snd p)) @ lit ''.json'')"

definition names_of :: "str \<Rightarrow> json list \<Rightarrow> str list" where
  "names_of output_dir docs = map (name_of output_dir) (enumerate 0 docs)"

text \<open>
  The lines of an input that are not blank; a line is valid when the decoder accepts
  it. \<open>documents_of\<close> are the values of the valid lines among them, in order, and
  \<open>errors_of\<close> the messages of line 24 for the others.
\<close>

definition nonblank :: "str list \<Rightarrow> str list" where
  "nonblank ls = filter (\<lambda>l. strip l \<noteq> []) ls"

definition valid :: "lib \<Rightarrow> str \<Rightarrow> bool" where
  "valid L l = (case loads L l of Inr d \<Rightarrow> True | Inl e \<Rightarrow> False)"

definition documents_of :: "lib \<Rightarrow> str list \<Rightarrow> json list" where
  "documents_of L ls =
     concat (map (\<lambda>l. case loads L l of Inr d \<Rightarrow> [d] | Inl e \<Rightarrow> []) (nonblank ls))"

definition errors_of :: "lib \<Rightarrow> str list \<Rightarrow> str list" where
  "errors_of L ls =
     concat (map (\<lambda>l. case loads L l of Inr d \<Rightarrow> [] | Inl e \<Rightarrow> [parse_error_message e l])
               (nonblank ls))"

text \<open>
  The requested space ids, as a list (none when \<^verbatim>\<open>--spaces\<close> is omitted), and the offending
  ones: those that are the id of no known space, in the order of the request.
\<close>

definition requested :: "str list option \<Rightarrow> str list" where
  "requested spaces = (case spaces of None \<Rightarrow> [] | Some ss \<Rightarrow> ss)"

definition offending :: "str list option \<Rightarrow> space list \<Rightarrow> str list" where
  "offending spaces all_spaces =
     filter (\<lambda>s. s \<notin> space_id ` set all_spaces) (requested spaces)"

text \<open>
  The errors in the log, and the text of the \<open>HTTPError\<close> of a response with a status
  from 400 to 599.
\<close>

definition error_entries :: "world \<Rightarrow> str list" where
  "error_entries w = map snd (filter (\<lambda>p. fst p = ERROR) (logged w))"


section \<open>The examples\<close>

text \<open>
  The worlds of the examples: nothing yet, and one exported file. Their server lists the
  spaces \<^verbatim>\<open>a\<close> and \<^verbatim>\<open>b\<close>; it answers the export of \<^verbatim>\<open>a\<close> with status 500, that of \<^verbatim>\<open>b\<close>
  with status 304 and an empty body, and any other with status 200 and one document.
  \<open>lenient_loads\<close> is a decoder that would take a blank line for a document.
\<close>

definition empty_world :: world where
  "empty_world = \<lparr>files = Map.empty, stdout = [], logged = []\<rparr>"

definition sample_world :: "bytes \<Rightarrow> world" where
  "sample_world data = \<lparr>files = [lit ''export/a.json'' \<mapsto> data], stdout = [], logged = []\<rparr>"

definition sample_spaces :: "space list" where
  "sample_spaces = [\<lparr>space_id = lit ''a'', space_other = []\<rparr>,
                    \<lparr>space_id = lit ''b'', space_other = [(lit ''name'', JStr (lit ''B''))]\<rparr>]"

definition sample_session :: session where
  \<open>sample_session =
     \<lparr>http_get = (\<lambda>u. Inr \<lparr>status_code = 200, reason = lit ''OK'', url_of = u, content = [],
                               text_of = [], json_body = Inr sample_spaces\<rparr>),
      http_post = (\<lambda>u params.
         if u = lit ''k/s/a/api/saved_objects/_export'' then
           Inr \<lparr>status_code = 500, reason = lit ''Internal Server Error'', url_of = u,
                content = lit ''boom'', text_of = lit ''boom'', json_body = Inr []\<rparr>
         else if u = lit ''k/s/b/api/saved_objects/_export'' then
           Inr \<lparr>status_code = 304, reason = lit ''Not Modified'', url_of = u,
                content = [], text_of = [], json_body = Inr []\<rparr>
         else
           Inr \<lparr>status_code = 200, reason = lit ''OK'', url_of = u,
                content = lit ''{"attributes": {"title": "My Dashboard"}}\<newline>'',
                text_of = lit ''{"attributes": {"title": "My Dashboard"}}\<newline>'',
                json_body = Inr []\<rparr>)\<rparr>\<close>

definition sample_args :: "str \<Rightarrow> str list option \<Rightarrow> args" where
  "sample_args export_dir spaces =
     \<lparr>arg_kibana_url = lit ''k'', arg_username = lit ''u'', arg_export_dir = export_dir,
      arg_types = None, arg_spaces = spaces\<rparr>"

definition lenient_loads :: "str \<Rightarrow> str + json" where
  "lenient_loads l = (if strip l = [] then Inr JNull else sample_loads l)"

section \<open>File names of the splitter\<close>

lemma replace_twice:
  "replace (ch CHR ''/'') (ch CHR ''_'') (replace (ch CHR '' '') (ch CHR ''_'') t) = sanitized t"
  by (simp add: replace_def sanitized_def)

lemma sanitized_clean: "ch CHR '' '' \<notin> set (sanitized t) \<and> ch CHR ''/'' \<notin> set (sanitized t)"
  by (auto simp: sanitized_def ch_def)

lemma write_text_encodable:
  assumes "list_all encodable chunks"
  shows "write_text path chunks w = (Inr (), write_file path (utf8_encode (concat chunks)) w)"
proof -
  have t: "takeWhile encodable chunks = chunks"
    using assms by (simp add: list_all_iff)
  show ?thesis unfolding write_text_def Let_def t by simp
qed

text \<open>
  C7. A document whose \<^verbatim>\<open>attributes.title\<close> is the string \<open>t\<close> goes to the file named by
  \<open>t\<close> with every space and every slash replaced by an underscore, followed by
  \<^verbatim>\<open>.json\<close>, in the output directory: \<open>save_document\<close> opens that file and writes the
  pieces of the document's JSON text to it, and when every piece can be encoded the file
  holds the whole text and the message of line 37 names the path. In every case that
  file is the one file that changes, and it holds the pieces before the first that
  cannot be encoded. The name has no space and no slash left. The example is the title
  \<^verbatim>\<open>My Dashboard\<close>, saved as \<^verbatim>\<open>My_Dashboard.json\<close>.
\<close>

theorem titled_document_file:
  assumes "doc = JObj kvs"
      and "map_of kvs (lit ''attributes'') = Some (JObj avs)"
      and "map_of avs (lit ''title'') = Some (JStr t)"
  shows "save_document L output_dir (i, doc) w =
           (case write_text (path_join output_dir (sanitized t @ lit ''.json''))
                   (iterencode L (Some 4) False doc) w of
              (Inl e, w') \<Rightarrow> (Inl e, w')
            | (Inr u, w') \<Rightarrow>
                (Inr (),
                 print (lit ''Document saved: '' @ path_join output_dir (sanitized t @ lit ''.json''))
                   w'))
         \<and> (list_all encodable (iterencode L (Some 4) False doc) \<longrightarrow>
              save_document L output_dir (i, doc) w =
                (Inr (),
                 print (lit ''Document saved: '' @ path_join output_dir (sanitized t @ lit ''.json''))
                   (write_file (path_join output_dir (sanitized t @ lit ''.json''))
                      (utf8_encode (dumps L (Some 4) False doc)) w)))
         \<and> files (snd (save_document L output_dir (i, doc) w))
             = (files w)(path_join output_dir (sanitized t @ lit ''.json'') \<mapsto>
                  utf8_encode (concat (takeWhile encodable (iterencode L (Some 4) False doc))))
         \<and> path_join output_dir (sanitized t @ lit ''.json'')
             = (if output_dir = [] \<or> last output_dir = ch CHR ''/'' then output_dir
                else output_dir @ lit ''/'') @ sanitized t @ lit ''.json''
         \<and> ch CHR '' '' \<notin> set (sanitized t) \<and> ch CHR ''/'' \<notin> set (sanitized t)"
proof -
  let ?P = "path_join output_dir (sanitized t @ lit ''.json'')"
  have "output_file_of output_dir i doc = Inr ?P"
    using assms
    by (simp add: output_file_of_def title_of_def dict_get_def sanitize_def
          replace_twice)
  then have 1: "save_document L output_dir (i, doc) w =
           (case write_text ?P (iterencode L (Some 4) False doc) w of
              (Inl e, w') \<Rightarrow> (Inl e, w')
            | (Inr u, w') \<Rightarrow> (Inr (), print (lit ''Document saved: '' @ ?P) w'))"
    by (simp add: save_document_def)
  have 2: "list_all encodable (iterencode L (Some 4) False doc) \<longrightarrow>
              save_document L output_dir (i, doc) w =
                (Inr (), print (lit ''Document saved: '' @ ?P)
                   (write_file ?P (utf8_encode (dumps L (Some 4) False doc)) w))"
    using 1 by (simp add: write_text_encodable dumps_def)
  have 4: "files (snd (save_document L output_dir (i, doc) w))
             = (files w)(?P \<mapsto>
                  utf8_encode (concat (takeWhile encodable (iterencode L (Some 4) False doc))))"
    unfolding 1 by (simp add: write_text_def Let_def write_file_def print_def)
  have "hd (sanitized t @ lit ''.json'') \<noteq> ch CHR ''/''"
    using sanitized_clean [of t] by (cases "sanitized t") (auto simp: lit_def ch_def)
  then have 3: "?P = (if output_dir = [] \<or> last output_dir = ch CHR ''/'' then output_dir
                else output_dir @ lit ''/'') @ sanitized t @ lit ''.json''"
    by (simp add: path_join_def)
  from 1 2 3 4 show ?thesis using sanitized_clean [of t] by blast
qed

text \<open>
  The facts that the examples unfold when they run: the fields of the sample library and
  of the sample world, and the definitions of the decoder, the encoder, the text files,
  the reader and the writer.
\<close>

lemma sample_lib_sel:
  "loads sample_lib = sample_loads"
  "iterencode sample_lib = sample_iterencode"
  "str_types sample_lib = sample_str_types"
  by (simp_all add: sample_lib_def)

lemma sample_world_sel:
  "files (sample_world d) = [lit ''export/a.json'' \<mapsto> d]"
  "stdout (sample_world d) = []"
  "logged (sample_world d) = []"
  by (simp_all add: sample_world_def)

lemma replicate_numeral: "replicate (numeral v) x = x # replicate (numeral v - 1) x"
  by (simp add: numeral_eq_Suc)

lemmas decoder_defs =
  lit_def ch_def sample_loads_def skip_ws_def json_ws_def literal_def scan_int_def unescape_def is_digit_def
  int_of_digits_def

lemmas encoder_defs =
  lit_def ch_def sample_iterencode_def sample_dumps_def brackets_def dump_str_def dq_def escape_def
  newline_indent_def str_int_def dumps_def replicate_numeral

lemmas utf8_defs =
  utf8_next_def cont_def second_ok_def write_text_def encodable_def utf8_encode_def
  utf8_encode_char_def

lemmas reader_defs =
  lit_def ch_def parse_nonstandard_json_def parse_error_message_def linebreak_def strip_def isspace_def

lemmas writer_defs =
  lit_def ch_def save_document_def output_file_of_def title_of_def dict_get_def sanitize_def replace_def
  path_join_def print_def write_file_def str_nat.simps digit_def

theorem titled_document_file_witness:
  \<open>save_document sample_lib (lit ''output_default'')
       (0, JObj [(lit ''attributes'', JObj [(lit ''title'', JStr (lit ''My Dashboard''))])])
       empty_world =
     (Inr (),
      \<lparr>files = [lit ''output_default/My_Dashboard.json'' \<mapsto>
                 lit ''{\<newline>    "attributes": {\<newline>        "title": "My Dashboard"\<newline>    }\<newline>}''],
       stdout = [lit ''Document saved: output_default/My_Dashboard.json''],
       logged = []\<rparr>)
   \<and> sanitized (lit ''a b/c d'') = lit ''a_b_c_d''\<close>
  using titled_document_file [of
      "JObj [(lit ''attributes'', JObj [(lit ''title'', JStr (lit ''My Dashboard''))])]"
      "[(lit ''attributes'', JObj [(lit ''title'', JStr (lit ''My Dashboard''))])]"
      "[(lit ''title'', JStr (lit ''My Dashboard''))]"
      "lit ''My Dashboard''" sample_lib "lit ''output_default''" 0 empty_world]
  by (simp add: sanitized_def path_join_def print_def write_file_def empty_world_def
        sample_lib_sel encoder_defs utf8_defs)










section \<open>Validation of the requested spaces\<close>

lemma sublist_prepend: "sublist x ys \<Longrightarrow> sublist x (p @ ys)"
  by (simp add: sublist_append)

lemma sublist_join: "x \<in> set xs \<Longrightarrow> sublist x (join sep xs)"
proof (induction sep xs rule: join.induct)
  case (1 sep)
  then show ?case by simp
next
  case (2 sep y)
  then show ?case by simp
next
  case (3 sep y z zs)
  show ?case
  proof (cases "x = y")
    case True
    then show ?thesis using sublist_appendI [of y "[]" "sep @ join sep (z # zs)"] by simp
  next
    case False
    with 3 have "sublist x (join sep (z # zs))" by simp
    then have "sublist x ((y @ sep) @ join sep (z # zs))" by (simp add: sublist_append)
    then show ?thesis by simp
  qed
qed

text \<open>
  C2. \<^verbatim>\<open>validate_spaces\<close> returns normally, and logs nothing, exactly when every requested
  id is the id of a known space. Otherwise it logs the message of line 74, that holds the
  offending ids joined by a comma, then the message of line 77, and leaves with
  \<^verbatim>\<open>SystemExit(1)\<close>; every requested id that is unknown occurs in the first message.
\<close>

theorem validate_spaces_exit:
  "validate_spaces spaces all_spaces w =
     (if \<forall>s \<in> set (requested spaces). s \<in> space_id ` set all_spaces then (Inr (), w)
      else (Inl (SystemExit 1),
            logging_error (lit ''Exiting due to invalid input.'')
              (logging_error (lit ''The following specified spaces do not exist: ''
                                @ join (lit '', '') (offending spaces all_spaces)) w)))
   \<and> (\<forall>s \<in> set (requested spaces). s \<notin> space_id ` set all_spaces \<longrightarrow>
         sublist s (lit ''The following specified spaces do not exist: ''
                      @ join (lit '', '') (offending spaces all_spaces)))"
proof
  show "validate_spaces spaces all_spaces w =
     (if \<forall>s \<in> set (requested spaces). s \<in> space_id ` set all_spaces then (Inr (), w)
      else (Inl (SystemExit 1),
            logging_error (lit ''Exiting due to invalid input.'')
              (logging_error (lit ''The following specified spaces do not exist: ''
                                @ join (lit '', '') (offending spaces all_spaces)) w)))"
    by (cases spaces)
       (auto simp: validate_spaces_def Let_def offending_def requested_def filter_empty_conv)
next
  show "\<forall>s \<in> set (requested spaces). s \<notin> space_id ` set all_spaces \<longrightarrow>
         sublist s (lit ''The following specified spaces do not exist: ''
                      @ join (lit '', '') (offending spaces all_spaces))"
  proof (intro ballI impI)
    fix s assume "s \<in> set (requested spaces)" and "s \<notin> space_id ` set all_spaces"
    then have "s \<in> set (offending spaces all_spaces)" by (simp add: offending_def)
    then have "sublist s (join (lit '', '') (offending spaces all_spaces))" by (rule sublist_join)
    then show "sublist s (lit ''The following specified spaces do not exist: ''
                      @ join (lit '', '') (offending spaces all_spaces))"
      by (rule sublist_prepend)
  qed
qed

theorem validate_spaces_exit_witness:
  "validate_spaces (Some [lit ''x'', lit ''a'', lit ''y'']) sample_spaces empty_world =
     (Inl (SystemExit 1),
      \<lparr>files = Map.empty, stdout = [],
       logged = [(ERROR, lit ''The following specified spaces do not exist: x, y''),
                 (ERROR, lit ''Exiting due to invalid input.'')]\<rparr>)
   \<and> sublist (lit ''y'') (lit ''The following specified spaces do not exist: x, y'')
   \<and> validate_spaces (Some [lit ''b'', lit ''a'']) sample_spaces empty_world
       = (Inr (), empty_world)"
proof -
  have ids: "space_id ` set sample_spaces = {lit ''a'', lit ''b''}"
    by (simp add: sample_spaces_def)
  have 1: "validate_spaces (Some [lit ''x'', lit ''a'', lit ''y'']) sample_spaces empty_world =
     (Inl (SystemExit 1),
      \<lparr>files = Map.empty, stdout = [],
       logged = [(ERROR, lit ''The following specified spaces do not exist: x, y''),
                 (ERROR, lit ''Exiting due to invalid input.'')]\<rparr>)"
    using validate_spaces_exit [of "Some [lit ''x'', lit ''a'', lit ''y'']" sample_spaces empty_world]
    by (simp add: offending_def ids requested_def logging_error_def empty_world_def lit_def)
  have 2: "sublist (lit ''y'') (lit ''The following specified spaces do not exist: x, y'')"
    using validate_spaces_exit [of "Some [lit ''x'', lit ''a'', lit ''y'']" sample_spaces empty_world]
    by (simp add: offending_def ids requested_def lit_def)
  have 3: "validate_spaces (Some [lit ''b'', lit ''a'']) sample_spaces empty_world
             = (Inr (), empty_world)"
    using validate_spaces_exit [of "Some [lit ''b'', lit ''a'']" sample_spaces empty_world]
    by (simp add: ids requested_def)
  from 1 2 3 show ?thesis by blast
qed

text \<open>
  C5. When \<^verbatim>\<open>--spaces\<close> is omitted, or is the empty list, \<^verbatim>\<open>validate_spaces\<close> returns
  normally without logging, and the spaces that line 105 selects for export are all the
  known spaces, in the order of the server.
\<close>

theorem omitted_spaces_select_all:
  assumes "spaces = None \<or> spaces = Some []"
  shows "validate_spaces spaces all_spaces w = (Inr (), w)
         \<and> spaces_to_export spaces all_spaces = all_spaces"
  using assms by (auto simp: validate_spaces_def spaces_to_export_def)

theorem omitted_spaces_select_all_witness:
  "validate_spaces None sample_spaces empty_world = (Inr (), empty_world)
   \<and> spaces_to_export None sample_spaces = sample_spaces
   \<and> validate_spaces (Some []) sample_spaces empty_world = (Inr (), empty_world)
   \<and> spaces_to_export (Some []) sample_spaces = sample_spaces"
  using omitted_spaces_select_all [of None sample_spaces empty_world]
        omitted_spaces_select_all [of "Some []" sample_spaces empty_world]
  by simp

section \<open>Export of a space\<close>

lemma sample_session_post:
  "http_post sample_session (lit ''k/s/a/api/saved_objects/_export'') p
     = Inr \<lparr>status_code = 500, reason = lit ''Internal Server Error'',
            url_of = lit ''k/s/a/api/saved_objects/_export'',
            content = lit ''boom'', text_of = lit ''boom'', json_body = Inr []\<rparr>"
  "http_post sample_session (lit ''k/s/b/api/saved_objects/_export'') p
     = Inr \<lparr>status_code = 304, reason = lit ''Not Modified'',
            url_of = lit ''k/s/b/api/saved_objects/_export'',
            content = [], text_of = [], json_body = Inr []\<rparr>"
  \<open>http_post sample_session (lit ''k/s/c/api/saved_objects/_export'') p
     = Inr \<lparr>status_code = 200, reason = lit ''OK'',
            url_of = lit ''k/s/c/api/saved_objects/_export'',
            content = lit ''{"attributes": {"title": "My Dashboard"}}\<newline>'',
            text_of = lit ''{"attributes": {"title": "My Dashboard"}}\<newline>'',
            json_body = Inr []\<rparr>\<close>
  by (simp_all add: sample_session_def lit_def)

lemma sample_session_get:
  "http_get sample_session u
     = Inr \<lparr>status_code = 200, reason = lit ''OK'', url_of = u, content = [],
            text_of = [], json_body = Inr sample_spaces\<rparr>"
  by (simp add: sample_session_def)

lemma hd_json_name: "hd (sid @ lit ''.json'') = ch CHR ''/'' \<longleftrightarrow> sid \<noteq> [] \<and> hd sid = ch CHR ''/''"
  by (cases sid) (simp_all add: lit_def ch_def)

text \<open>
  C8. When the request of \<^verbatim>\<open>export_objects\<close> is answered with a status from 200 to 299,
  \<^verbatim>\<open>export_objects\<close> returns normally and leaves the file system as it was but for the
  file \<^verbatim>\<open>os.path.join(export_dir, space_id + '.json')\<close>, which holds the bytes of
  \<^verbatim>\<open>response.content\<close> as they are; nothing is printed and no error is logged. For a
  space id that starts with no slash the path is the export directory, a slash unless
  the directory ends with one or is empty, and \<^verbatim>\<open><space_id>.json\<close>.
\<close>

theorem successful_export_file:
  assumes "http_post session (export_url url (space_id space)) (export_params object_types)
             = Inr response"
      and "200 \<le> status_code response" and "status_code response < 300"
  shows "fst (export_objects L session url export_dir space object_types w) = Inr ()
         \<and> files (snd (export_objects L session url export_dir space object_types w))
             = (files w)(path_join export_dir (space_id space @ lit ''.json'') \<mapsto> content response)
         \<and> stdout (snd (export_objects L session url export_dir space object_types w)) = stdout w
         \<and> error_entries (snd (export_objects L session url export_dir space object_types w))
             = error_entries w
         \<and> path_join export_dir (space_id space @ lit ''.json'')
             = (if space_id space \<noteq> [] \<and> hd (space_id space) = ch CHR ''/''
                then space_id space @ lit ''.json''
                else (if export_dir = [] \<or> last export_dir = ch CHR ''/'' then export_dir
                      else export_dir @ lit ''/'') @ space_id space @ lit ''.json'')"
proof -
  have "raise_for_status response = Inr ()"
    using assms(2,3) by (simp add: raise_for_status_def)
  then have "export_objects L session url export_dir space object_types w =
      (Inr (),
       logging_info (lit ''Export successful for space '' @ space_id space @ lit '': ''
                       @ path_join export_dir (space_id space @ lit ''.json''))
         (write_file (path_join export_dir (space_id space @ lit ''.json'')) (content response)
            (logging_info (lit ''Requesting URL: '' @ export_url url (space_id space)
                             @ lit '' with params: ''
                             @ dumps L None True (export_params object_types))
               (logging_info (lit ''object_types: '' @ str_types L object_types) w))))"
    using assms(1) by (simp add: export_objects_def Let_def)
  then have "fst (export_objects L session url export_dir space object_types w) = Inr ()
         \<and> files (snd (export_objects L session url export_dir space object_types w))
             = (files w)(path_join export_dir (space_id space @ lit ''.json'') \<mapsto> content response)
         \<and> stdout (snd (export_objects L session url export_dir space object_types w)) = stdout w
         \<and> error_entries (snd (export_objects L session url export_dir space object_types w))
             = error_entries w"
    by (simp add: write_file_def logging_info_def error_entries_def)
  moreover have "path_join export_dir (space_id space @ lit ''.json'')
             = (if space_id space \<noteq> [] \<and> hd (space_id space) = ch CHR ''/''
                then space_id space @ lit ''.json''
                else (if export_dir = [] \<or> last export_dir = ch CHR ''/'' then export_dir
                      else export_dir @ lit ''/'') @ space_id space @ lit ''.json'')"
    unfolding path_join_def hd_json_name by (simp add: lit_def)
  ultimately show ?thesis by blast
qed

theorem successful_export_file_witness:
  \<open>files (snd (export_objects sample_lib sample_session (lit ''k'') (lit ''export'')
                 \<lparr>space_id = lit ''c'', space_other = []\<rparr> None empty_world))
     = [lit ''export/c.json'' \<mapsto> lit ''{"attributes": {"title": "My Dashboard"}}\<newline>'']
   \<and> fst (export_objects sample_lib sample_session (lit ''k'') (lit ''export'')
                 \<lparr>space_id = lit ''c'', space_other = []\<rparr> None empty_world) = Inr ()\<close>
  using successful_export_file [of sample_session "lit ''k''"
      "\<lparr>space_id = lit ''c'', space_other = []\<rparr>" None
      \<open>\<lparr>status_code = 200, reason = lit ''OK'',
        url_of = lit ''k/s/c/api/saved_objects/_export'',
        content = lit ''{"attributes": {"title": "My Dashboard"}}\<newline>'',
        text_of = lit ''{"attributes": {"title": "My Dashboard"}}\<newline>'',
        json_body = Inr []\<rparr>\<close>
      sample_lib "lit ''export''" empty_world]
        sample_session_post(3) [of "export_params None"]
  by (simp add: export_url_def path_join_def empty_world_def lit_def ch_def)



lemmas export_defs =
  export_objects_def raise_for_status_def export_url_def path_join_def write_file_def
  logging_info_def logging_error_def

lemmas main_defs =
  main_def get_spaces_def validate_spaces_def spaces_to_export_def export_space_details_def
  export_and_split_def parse_and_save_documents_def


section \<open>The file of space details\<close>

lemma validate_spaces_known:
  assumes "\<forall>s \<in> set (requested spaces). s \<in> space_id ` set all_spaces"
  shows "validate_spaces spaces all_spaces w = (Inr (), w)"
  using assms
  by (cases spaces) (auto simp: validate_spaces_def Let_def requested_def filter_empty_conv)

text \<open>
  C4, for the selected spaces. When the listing of the spaces succeeds and every
  requested id is known, \<open>main\<close> writes to
  \<^verbatim>\<open>os.path.join(export_dir, 'spaces_details.json')\<close> the JSON text of the spaces
  selected for export, then exports and splits them in turn. The selected spaces are
  all the spaces of the server when \<^verbatim>\<open>--spaces\<close> is omitted or empty, and otherwise
  those whose id is requested.
\<close>

theorem details_file_holds_selected:
  assumes "http_get session (arg_kibana_url a @ lit ''/api/spaces/space'') = Inr response"
      and "status_code response < 400 \<or> 600 \<le> status_code response"
      and "json_body response = Inr all_spaces"
      and "\<forall>s \<in> set (requested (arg_spaces a)). s \<in> space_id ` set all_spaces"
      and "selected = spaces_to_export (arg_spaces a) all_spaces"
  shows "main L session a w =
           (case write_text (path_join (arg_export_dir a) (lit ''spaces_details.json''))
                   (iterencode L None True (JArr (map space_json selected))) w of
              (Inl e, w') \<Rightarrow> (Inl e, w')
            | (Inr u, w') \<Rightarrow>
                for_each (export_and_split L session a) selected
                  (logging_info (lit ''Exported space details.'') w'))
         \<and> (list_all encodable (iterencode L None True (JArr (map space_json selected))) \<longrightarrow>
              main L session a w =
                for_each (export_and_split L session a) selected
                  (logging_info (lit ''Exported space details.'')
                     (write_file (path_join (arg_export_dir a) (lit ''spaces_details.json''))
                        (utf8_encode (dumps L None True (JArr (map space_json selected)))) w)))
         \<and> selected = (if requested (arg_spaces a) = [] then all_spaces
                        else filter (\<lambda>space. space_id space \<in> set (requested (arg_spaces a)))
                               all_spaces)"
proof -
  have "raise_for_status response = Inr ()"
    using assms(2) by (auto simp: raise_for_status_def)
  then have "get_spaces session (arg_kibana_url a) w = (Inr all_spaces, w)"
    using assms(1,3) by (simp add: get_spaces_def)
  moreover have "validate_spaces (arg_spaces a) all_spaces w = (Inr (), w)"
    using assms(4) by (rule validate_spaces_known)
  ultimately have 1: "main L session a w =
           (case write_text (path_join (arg_export_dir a) (lit ''spaces_details.json''))
                   (iterencode L None True (JArr (map space_json selected))) w of
              (Inl e, w') \<Rightarrow> (Inl e, w')
            | (Inr u, w') \<Rightarrow>
                for_each (export_and_split L session a) selected
                  (logging_info (lit ''Exported space details.'') w'))"
    using assms(5)
    by (simp add: main_def export_space_details_def Let_def split: prod.splits sum.splits)
  then have 2: "list_all encodable (iterencode L None True (JArr (map space_json selected))) \<longrightarrow>
              main L session a w =
                for_each (export_and_split L session a) selected
                  (logging_info (lit ''Exported space details.'')
                     (write_file (path_join (arg_export_dir a) (lit ''spaces_details.json''))
                        (utf8_encode (dumps L None True (JArr (map space_json selected)))) w))"
    by (simp add: write_text_encodable dumps_def)
  have 3: "selected = (if requested (arg_spaces a) = [] then all_spaces
                        else filter (\<lambda>space. space_id space \<in> set (requested (arg_spaces a)))
                               all_spaces)"
    using assms(5) by (cases "arg_spaces a") (simp_all add: spaces_to_export_def requested_def)
  from 1 2 3 show ?thesis by blast
qed

theorem details_file_holds_selected_witness:
  \<open>main sample_lib sample_session (sample_args (lit ''export'') (Some [lit ''b''])) empty_world
     = for_each
         (export_and_split sample_lib sample_session (sample_args (lit ''export'') (Some [lit ''b''])))
         [\<lparr>space_id = lit ''b'', space_other = [(lit ''name'', JStr (lit ''B''))]\<rparr>]
         \<lparr>files = [lit ''export/spaces_details.json'' \<mapsto> lit ''[{"id": "b", "name": "B"}]''],
          stdout = [], logged = [(INFO, lit ''Exported space details.'')]\<rparr>\<close>
proof -
  have g: "http_get sample_session
             (arg_kibana_url (sample_args (lit ''export'') (Some [lit ''b''])) @ lit ''/api/spaces/space'')
           = Inr \<lparr>status_code = 200, reason = lit ''OK'',
                  url_of = arg_kibana_url (sample_args (lit ''export'') (Some [lit ''b'']))
                             @ lit ''/api/spaces/space'',
                  content = [], text_of = [], json_body = Inr sample_spaces\<rparr>"
    by (rule sample_session_get)
  show ?thesis
    using details_file_holds_selected [OF g, of sample_spaces
        "[\<lparr>space_id = lit ''b'', space_other = [(lit ''name'', JStr (lit ''B''))]\<rparr>]"
        sample_lib empty_world]
    by (simp add: sample_args_def sample_spaces_def requested_def spaces_to_export_def
          path_join_def write_file_def logging_info_def empty_world_def sample_lib_sel
          space_json_def encoder_defs utf8_defs)
qed

text \<open>
  With the spaces \<^verbatim>\<open>a\<close> and \<^verbatim>\<open>b\<close> on the server and \<^verbatim>\<open>--spaces b\<close>, the file of details
  holds \<^verbatim>\<open>b\<close> alone, not the list of the server.
\<close>

theorem details_file_counterexample:
  \<open>files (snd (main sample_lib sample_session (sample_args (lit ''export'') (Some [lit ''b'']))
                 empty_world))
       (lit ''export/spaces_details.json'')
     = Some (lit ''[{"id": "b", "name": "B"}]'')
   \<and> get_spaces sample_session (lit ''k'') empty_world = (Inr sample_spaces, empty_world)
   \<and> utf8_encode (dumps sample_lib None True (JArr (map space_json sample_spaces)))
       = lit ''[{"id": "a"}, {"id": "b", "name": "B"}]''\<close>
proof -
  have 1: \<open>files (snd (main sample_lib sample_session (sample_args (lit ''export'') (Some [lit ''b'']))
                 empty_world))
       (lit ''export/spaces_details.json'')
     = Some (lit ''[{"id": "b", "name": "B"}]'')\<close>
    by (simp add: main_defs export_defs reader_defs Let_def sample_session_def sample_args_def
          sample_spaces_def sample_lib_sel empty_world_def space_json_def encoder_defs utf8_defs)
  have 2: "get_spaces sample_session (lit ''k'') empty_world = (Inr sample_spaces, empty_world)"
    by (simp add: get_spaces_def sample_session_get raise_for_status_def)
  have 3: \<open>utf8_encode (dumps sample_lib None True (JArr (map space_json sample_spaces)))
       = lit ''[{"id": "a"}, {"id": "b", "name": "B"}]''\<close>
    by (simp add: sample_spaces_def sample_lib_sel space_json_def encoder_defs utf8_defs)
  from 1 2 3 show ?thesis by blast
qed

section \<open>The input of the split\<close>







section \<open>Lines, documents and files of the splitter\<close>

lemma parse_lines_eq:
  "parse_lines L ls docs w
     = (docs @ documents_of L ls, w\<lparr>stdout := stdout w @ errors_of L ls\<rparr>)"
proof (induction ls arbitrary: docs w)
  case Nil
  show ?case by (simp add: documents_of_def errors_of_def nonblank_def)
next
  case (Cons l ls)
  show ?case
  proof (cases "strip l = []")
    case True
    then show ?thesis using Cons [of docs w]
      by (simp add: documents_of_def errors_of_def nonblank_def)
  next
    case False
    show ?thesis
    proof (cases "loads L l")
      case (Inl e)
      then show ?thesis using False Cons [of docs "print (parse_error_message e l) w"]
        by (simp add: documents_of_def errors_of_def nonblank_def print_def)
    next
      case (Inr d)
      then show ?thesis using False Cons [of "docs @ [d]" w]
        by (simp add: documents_of_def errors_of_def nonblank_def)
    qed
  qed
qed

lemma parse_file_eq:
  assumes "files w input_file = Some raw" and "utf8_decode raw = Some text"
  shows "parse_nonstandard_json L input_file w
           = (Inr (documents_of L (splitlines (universal_newlines text))),
              w\<lparr>stdout := stdout w @ errors_of L (splitlines (universal_newlines text))\<rparr>)"
  using assms by (simp add: parse_nonstandard_json_def Let_def parse_lines_eq)

lemma count_decoded:
  "length (concat (map (\<lambda>l. case loads L l of Inr d \<Rightarrow> [d] | Inl e \<Rightarrow> []) xs))
     = length (filter (valid L) xs)"
  by (induction xs) (auto simp: valid_def split: sum.splits)

lemma count_reported:
  "length (concat (map (\<lambda>l. case loads L l of Inr d \<Rightarrow> [] | Inl e \<Rightarrow> [parse_error_message e l]) xs))
     = length xs - length (filter (valid L) xs)"
proof (induction xs)
  case Nil
  show ?case by simp
next
  case (Cons x xs)
  have "length (filter (valid L) xs) \<le> length xs" by simp
  with Cons show ?case by (auto simp: valid_def split: sum.splits)
qed

lemma count_documents:
  "length (documents_of L ls) = length (filter (valid L) (nonblank ls))"
  unfolding documents_of_def by (rule count_decoded)

lemma count_errors:
  "length (errors_of L ls) = length (nonblank ls) - length (filter (valid L) (nonblank ls))"
  unfolding errors_of_def by (rule count_reported)

lemma count_lines:
  "length (nonblank ls) + length (filter (\<lambda>l. strip l = []) ls) = length ls"
  unfolding nonblank_def by (induction ls) auto

lemma well_titled_output_file:
  assumes "well_titled doc"
  shows "output_file_of output_dir i doc = Inr (name_of output_dir (i, doc))"
  using assms
  by (auto simp: well_titled_def doc_title_def name_of_def output_file_of_def title_of_def
        dict_get_def sanitize_def replace_twice split: json.splits option.splits)

lemma save_savable:
  assumes "savable L doc"
  shows "save_document L output_dir (i, doc) w =
           (Inr (),
            print (lit ''Document saved: '' @ name_of output_dir (i, doc))
              (write_file (name_of output_dir (i, doc))
                 (utf8_encode (dumps L (Some 4) False doc)) w))"
  using assms
  by (simp add: savable_def save_document_def well_titled_output_file write_text_encodable
        dumps_def)

lemma for_each_savable:
  assumes "list_all (savable L) docs"
  shows "fst (for_each (save_document L output_dir) (enumerate n docs) w) = Inr ()
         \<and> dom (files (snd (for_each (save_document L output_dir) (enumerate n docs) w)))
             = dom (files w) \<union> set (map (name_of output_dir) (enumerate n docs))
         \<and> stdout (snd (for_each (save_document L output_dir) (enumerate n docs) w))
             = stdout w @ map (\<lambda>p. lit ''Document saved: '' @ name_of output_dir p)
                            (enumerate n docs)"
  using assms
proof (induction docs arbitrary: n w)
  case Nil
  show ?case by simp
next
  case (Cons doc docs)
  let ?w = "print (lit ''Document saved: '' @ name_of output_dir (n, doc))
              (write_file (name_of output_dir (n, doc))
                 (utf8_encode (dumps L (Some 4) False doc)) w)"
  have s: "save_document L output_dir (n, doc) w = (Inr (), ?w)"
    using Cons.prems by (simp add: save_savable)
  have r: "for_each (save_document L output_dir) (enumerate n (doc # docs)) w
             = for_each (save_document L output_dir) (enumerate (Suc n) docs) ?w"
    by (simp add: s)
  have d: "dom (files ?w) = insert (name_of output_dir (n, doc)) (dom (files w))"
    by (simp add: print_def write_file_def)
  have o: "stdout ?w = stdout w @ [lit ''Document saved: '' @ name_of output_dir (n, doc)]"
    by (simp add: print_def write_file_def)
  from Cons.prems have "list_all (savable L) docs" by simp
  from Cons.IH [OF this, of "Suc n" ?w] show ?case
    unfolding r d o by auto
qed

text \<open>
  C1, counting the lines that are not blank. Let the input have \<open>M\<close> lines that are not
  blank, \<open>K\<close> of them valid JSON. Then \<^verbatim>\<open>parse_nonstandard_json\<close> returns the \<open>K\<close>
  documents, in order, and prints \<open>M - K\<close> messages of line 24, one for each other line
  that is not blank. When every document is savable, \<^verbatim>\<open>parse_and_save_documents\<close>
  returns normally after \<open>K\<close> writes, one to the name of each document, with \<open>K\<close>
  messages of line 37: the files it has written are the names of the documents, at most
  \<open>K\<close> files, and \<open>K\<close> files when the names are distinct.
\<close>

theorem splitter_counts:
  assumes "files w input_file = Some raw" and "utf8_decode raw = Some text"
      and "ls = splitlines (universal_newlines text)"
      and "docs = documents_of L ls"
  shows "parse_nonstandard_json L input_file w
           = (Inr docs, w\<lparr>stdout := stdout w @ errors_of L ls\<rparr>)
         \<and> length docs = length (filter (valid L) (nonblank ls))
         \<and> length (errors_of L ls)
             = length (nonblank ls) - length (filter (valid L) (nonblank ls))
         \<and> (list_all (savable L) docs \<longrightarrow>
              fst (parse_and_save_documents L input_file output_dir w) = Inr ()
              \<and> dom (files (snd (parse_and_save_documents L input_file output_dir w)))
                  = dom (files w) \<union> set (names_of output_dir docs)
              \<and> stdout (snd (parse_and_save_documents L input_file output_dir w))
                  = stdout w @ errors_of L ls
                      @ map (\<lambda>p. lit ''Document saved: '' @ p) (names_of output_dir docs)
              \<and> length (names_of output_dir docs) = length docs
              \<and> card (set (names_of output_dir docs)) \<le> length docs
              \<and> (distinct (names_of output_dir docs) \<longrightarrow>
                   card (set (names_of output_dir docs)) = length docs))"
proof -
  let ?w1 = "w\<lparr>stdout := stdout w @ errors_of L ls\<rparr>"
  have p: "parse_nonstandard_json L input_file w = (Inr docs, ?w1)"
    using parse_file_eq [OF assms(1,2), of L] assms(3,4) by simp
  have n: "length (names_of output_dir docs) = length docs"
    by (simp add: names_of_def)
  have c: "card (set (names_of output_dir docs)) \<le> length docs"
    using card_length [of "names_of output_dir docs"] n by simp
  have d: "distinct (names_of output_dir docs) \<longrightarrow>
             card (set (names_of output_dir docs)) = length docs"
    using n by (simp add: distinct_card)
  have s: "list_all (savable L) docs \<longrightarrow>
              fst (parse_and_save_documents L input_file output_dir w) = Inr ()
              \<and> dom (files (snd (parse_and_save_documents L input_file output_dir w)))
                  = dom (files w) \<union> set (names_of output_dir docs)
              \<and> stdout (snd (parse_and_save_documents L input_file output_dir w))
                  = stdout w @ errors_of L ls
                      @ map (\<lambda>p. lit ''Document saved: '' @ p) (names_of output_dir docs)"
  proof
    assume "list_all (savable L) docs"
    from for_each_savable [OF this, of output_dir 0 ?w1]
    show "fst (parse_and_save_documents L input_file output_dir w) = Inr ()
              \<and> dom (files (snd (parse_and_save_documents L input_file output_dir w)))
                  = dom (files w) \<union> set (names_of output_dir docs)
              \<and> stdout (snd (parse_and_save_documents L input_file output_dir w))
                  = stdout w @ errors_of L ls
                      @ map (\<lambda>p. lit ''Document saved: '' @ p) (names_of output_dir docs)"
      by (simp add: parse_and_save_documents_def p names_of_def comp_def)
  qed
  from p s n c d show ?thesis
    using count_documents [of L ls] count_errors [of L ls] assms(4) by simp
qed

theorem splitter_counts_witness:
  \<open>fst (parse_and_save_documents sample_lib (lit ''export/a.json'') (lit ''output_a'')
          (sample_world
             (lit ''{"attributes": {"title": "a"}}\<newline>\<newline>{oops\<newline>{"attributes": {}}''))) = Inr ()
   \<and> stdout (snd (parse_and_save_documents sample_lib (lit ''export/a.json'') (lit ''output_a'')
          (sample_world
             (lit ''{"attributes": {"title": "a"}}\<newline>\<newline>{oops\<newline>{"attributes": {}}''))))
       = [lit ''Error during parsing: Expecting value'' @ [0x5C] @ lit ''Object: {oops'',
          lit ''Document saved: output_a/a.json'',
          lit ''Document saved: output_a/document_2.json'']
   \<and> dom (files (snd (parse_and_save_documents sample_lib (lit ''export/a.json'') (lit ''output_a'')
          (sample_world
             (lit ''{"attributes": {"title": "a"}}\<newline>\<newline>{oops\<newline>{"attributes": {}}'')))))
       = {lit ''export/a.json'', lit ''output_a/a.json'', lit ''output_a/document_2.json''}\<close>
proof -
  let ?raw = \<open>lit ''{"attributes": {"title": "a"}}\<newline>\<newline>{oops\<newline>{"attributes": {}}''\<close>
  let ?ls = \<open>[lit ''{"attributes": {"title": "a"}}'', [], lit ''{oops'', lit ''{"attributes": {}}'']\<close>
  let ?docs = "[JObj [(lit ''attributes'', JObj [(lit ''title'', JStr (lit ''a''))])],
                JObj [(lit ''attributes'', JObj [])]]"
  have f: "files (sample_world ?raw) (lit ''export/a.json'') = Some ?raw"
    by (simp add: sample_world_sel)
  have u: "utf8_decode ?raw = Some ?raw"
    by (simp add: lit_def utf8_defs)
  have l: "?ls = splitlines (universal_newlines ?raw)"
    by (simp add: lit_def linebreak_def)
  have d: "?docs = documents_of sample_lib ?ls"
    by (simp add: documents_of_def nonblank_def strip_def isspace_def sample_lib_sel decoder_defs)
  have e: "errors_of sample_lib ?ls
             = [lit ''Error during parsing: Expecting value'' @ [0x5C] @ lit ''Object: {oops'']"
    by (simp add: errors_of_def nonblank_def strip_def isspace_def sample_lib_sel decoder_defs
          parse_error_message_def)
  have s: "list_all (savable sample_lib) ?docs"
    by (simp add: savable_def well_titled_def sample_lib_sel encoder_defs utf8_defs)
  have n: "names_of (lit ''output_a'') ?docs
             = [lit ''output_a/a.json'', lit ''output_a/document_2.json'']"
    by (simp add: names_of_def name_of_def doc_title_def sanitized_def path_join_def
          str_nat.simps digit_def lit_def ch_def)
  let ?P = "parse_and_save_documents sample_lib (lit ''export/a.json'') (lit ''output_a'')
              (sample_world ?raw)"
  have t: "fst ?P = Inr ()
           \<and> dom (files (snd ?P))
               = dom (files (sample_world ?raw)) \<union> set (names_of (lit ''output_a'') ?docs)
           \<and> stdout (snd ?P)
               = stdout (sample_world ?raw) @ errors_of sample_lib ?ls
                   @ map (\<lambda>p. lit ''Document saved: '' @ p) (names_of (lit ''output_a'') ?docs)"
    using splitter_counts [OF f u l d, of "lit ''output_a''"] s by blast
  show ?thesis
    using t unfolding e n by (auto simp: sample_world_sel lit_def)
qed

text \<open>
  Counting all the lines fails, and so does counting one file for each document: an
  input of three lines, two of them valid with the same title and a blank one between
  them, gives one output file, written twice, and no message of line 24. And a valid
  line need not be savable: for a document whose title is a number line 33 raises
  \<open>AttributeError\<close>, and no file is written.
\<close>

theorem splitter_counts_counterexample:
  \<open>utf8_decode (lit ''{"attributes": {"title": "a"}}\<newline>\<newline>{"attributes": {"title": "a"}}'')
     = Some (lit ''{"attributes": {"title": "a"}}\<newline>\<newline>{"attributes": {"title": "a"}}'')
   \<and> map (valid sample_lib)
         (splitlines (universal_newlines
            (lit ''{"attributes": {"title": "a"}}\<newline>\<newline>{"attributes": {"title": "a"}}'')))
       = [True, False, True]
   \<and> parse_and_save_documents sample_lib (lit ''export/a.json'') (lit ''output_a'')
        (sample_world
           (lit ''{"attributes": {"title": "a"}}\<newline>\<newline>{"attributes": {"title": "a"}}''))
     = (Inr (),
        \<lparr>files = [lit ''export/a.json'' \<mapsto>
                     lit ''{"attributes": {"title": "a"}}\<newline>\<newline>{"attributes": {"title": "a"}}'',
                   lit ''output_a/a.json'' \<mapsto>
                     lit ''{\<newline>    "attributes": {\<newline>        "title": "a"\<newline>    }\<newline>}''],
         stdout = [lit ''Document saved: output_a/a.json'',
                   lit ''Document saved: output_a/a.json''],
         logged = []\<rparr>)
   \<and> map (valid sample_lib)
         (splitlines (universal_newlines (lit ''{"attributes": {"title": 5}}''))) = [True]
   \<and> parse_and_save_documents sample_lib (lit ''export/a.json'') (lit ''output_a'')
        (sample_world (lit ''{"attributes": {"title": 5}}''))
     = (Inl (AttributeError (lit ''replace'')),
        sample_world (lit ''{"attributes": {"title": 5}}''))\<close>
proof -
  have 1: \<open>utf8_decode (lit ''{"attributes": {"title": "a"}}\<newline>\<newline>{"attributes": {"title": "a"}}'')
     = Some (lit ''{"attributes": {"title": "a"}}\<newline>\<newline>{"attributes": {"title": "a"}}'')
   \<and> map (valid sample_lib)
         (splitlines (universal_newlines
            (lit ''{"attributes": {"title": "a"}}\<newline>\<newline>{"attributes": {"title": "a"}}'')))
       = [True, False, True]\<close>
    by (simp add: lit_def utf8_defs linebreak_def valid_def sample_lib_sel decoder_defs)
  have 2: \<open>parse_and_save_documents sample_lib (lit ''export/a.json'') (lit ''output_a'')
        (sample_world
           (lit ''{"attributes": {"title": "a"}}\<newline>\<newline>{"attributes": {"title": "a"}}''))
     = (Inr (),
        \<lparr>files = [lit ''export/a.json'' \<mapsto>
                     lit ''{"attributes": {"title": "a"}}\<newline>\<newline>{"attributes": {"title": "a"}}'',
                   lit ''output_a/a.json'' \<mapsto>
                     lit ''{\<newline>    "attributes": {\<newline>        "title": "a"\<newline>    }\<newline>}''],
         stdout = [lit ''Document saved: output_a/a.json'',
                   lit ''Document saved: output_a/a.json''],
         logged = []\<rparr>)\<close>
    by (simp add: parse_and_save_documents_def reader_defs decoder_defs writer_defs encoder_defs
          utf8_defs sample_lib_sel sample_world_def)
  have 3: \<open>map (valid sample_lib)
         (splitlines (universal_newlines (lit ''{"attributes": {"title": 5}}''))) = [True]\<close>
    by (simp add: lit_def linebreak_def valid_def sample_lib_sel decoder_defs)
  have p: \<open>parse_nonstandard_json sample_lib (lit ''export/a.json'')
             (sample_world (lit ''{"attributes": {"title": 5}}''))
     = (Inr [JObj [(lit ''attributes'', JObj [(lit ''title'', JInt 5)])]],
        sample_world (lit ''{"attributes": {"title": 5}}''))\<close>
    by (simp add: reader_defs decoder_defs utf8_defs sample_lib_sel sample_world_sel)
  have 4: \<open>parse_and_save_documents sample_lib (lit ''export/a.json'') (lit ''output_a'')
        (sample_world (lit ''{"attributes": {"title": 5}}''))
     = (Inl (AttributeError (lit ''replace'')),
        sample_world (lit ''{"attributes": {"title": 5}}''))\<close>
    unfolding parse_and_save_documents_def p
    by (simp add: save_document_def output_file_of_def title_of_def dict_get_def sanitize_def
          lit_def)
  from 1 2 3 4 show ?thesis by blast
qed

lemma parse_lines_loads:
  assumes "\<forall>l. strip l \<noteq> [] \<longrightarrow> f l = loads L l"
  shows "parse_lines (L\<lparr>loads := f\<rparr>) ls docs w = parse_lines L ls docs w"
  using assms by (induction ls arbitrary: docs w) (auto split: sum.splits)

lemma save_document_loads: "save_document (L\<lparr>loads := f\<rparr>) output_dir = save_document L output_dir"
  by (rule ext, rule ext) (simp add: save_document_def split: prod.split sum.split)

lemma splitter_loads:
  assumes "\<forall>l. strip l \<noteq> [] \<longrightarrow> f l = loads L l"
  shows "parse_and_save_documents (L\<lparr>loads := f\<rparr>) input_file output_dir w
           = parse_and_save_documents L input_file output_dir w"
  unfolding parse_and_save_documents_def parse_nonstandard_json_def Let_def
    parse_lines_loads [OF assms] save_document_loads ..

lemma save_document_new:
  "\<exists>p. dom (files (snd (save_document L output_dir x w))) \<subseteq> insert p (dom (files w))"
  by (cases x)
     (auto simp: save_document_def write_text_def Let_def write_file_def print_def
           split: prod.splits sum.splits if_splits)

lemma new_files_bound:
  "finite (dom (files (snd (for_each (save_document L output_dir) xs w))) - dom (files w))
   \<and> card (dom (files (snd (for_each (save_document L output_dir) xs w))) - dom (files w))
       \<le> length xs"
proof (induction xs arbitrary: w)
  case Nil
  show ?case by simp
next
  case (Cons x xs)
  obtain r w1 where s: "save_document L output_dir x w = (r, w1)"
    by (cases "save_document L output_dir x w")
  obtain p where "dom (files w1) \<subseteq> insert p (dom (files w))"
    using save_document_new [of L output_dir x w] s by auto
  then have A: "dom (files w1) - dom (files w) \<subseteq> {p}" by auto
  let ?wf = "snd (for_each (save_document L output_dir) (x # xs) w)"
  have B: "finite (dom (files ?wf) - dom (files w1))
           \<and> card (dom (files ?wf) - dom (files w1)) \<le> length xs"
  proof (cases r)
    case (Inl e)
    then have "?wf = w1" using s by simp
    then show ?thesis by simp
  next
    case (Inr u)
    then have "?wf = snd (for_each (save_document L output_dir) xs w1)" using s by simp
    then show ?thesis using Cons [of w1] by simp
  qed
  have sub: "dom (files ?wf) - dom (files w)
               \<subseteq> (dom (files w1) - dom (files w)) \<union> (dom (files ?wf) - dom (files w1))"
    by auto
  have fA: "finite (dom (files w1) - dom (files w))"
    using A by (rule finite_subset) simp
  have cA: "card (dom (files w1) - dom (files w)) \<le> 1"
    using card_mono [OF _ A] by simp
  have fin: "finite ((dom (files w1) - dom (files w)) \<union> (dom (files ?wf) - dom (files w1)))"
    using fA B by simp
  have "card (dom (files ?wf) - dom (files w))
          \<le> card ((dom (files w1) - dom (files w)) \<union> (dom (files ?wf) - dom (files w1)))"
    using fin sub by (rule card_mono)
  also have "\<dots> \<le> card (dom (files w1) - dom (files w)) + card (dom (files ?wf) - dom (files w1))"
    by (rule card_Un_le)
  also have "\<dots> \<le> 1 + length xs" using cA B by simp
  finally have "card (dom (files ?wf) - dom (files w)) \<le> length (x # xs)" by simp
  moreover have "finite (dom (files ?wf) - dom (files w))"
    using sub fin by (rule finite_subset)
  ultimately show ?case by blast
qed

text \<open>
  C10. A blank line is not parsed: a decoder that differs from \<^verbatim>\<open>json.loads\<close> on blank
  lines only gives the same run of the splitter. It is not reported and gives no
  document: the documents and the messages of line 24 are those of the lines that are
  not blank, so that documents, messages and blank lines add up to the lines of the
  input. The files that the splitter creates are at most as many as the documents.
  Output files and reported errors are hence fewer than the lines as soon as one line
  is blank; the example has three lines, one output file and one message.
\<close>

theorem blank_lines_are_skipped:
  assumes "files w input_file = Some raw" and "utf8_decode raw = Some text"
      and "ls = splitlines (universal_newlines text)"
      and "\<forall>l. strip l \<noteq> [] \<longrightarrow> f l = loads L l"
      and "new_files = dom (files (snd (parse_and_save_documents L input_file output_dir w)))
                         - dom (files w)"
  shows "parse_and_save_documents (L\<lparr>loads := f\<rparr>) input_file output_dir w
           = parse_and_save_documents L input_file output_dir w
         \<and> parse_nonstandard_json L input_file w
             = (Inr (documents_of L ls), w\<lparr>stdout := stdout w @ errors_of L ls\<rparr>)
         \<and> length (documents_of L ls) + length (errors_of L ls)
               + length (filter (\<lambda>l. strip l = []) ls) = length ls
         \<and> finite new_files
         \<and> card new_files \<le> length (documents_of L ls)"
proof -
  let ?w1 = "w\<lparr>stdout := stdout w @ errors_of L ls\<rparr>"
  have p: "parse_nonstandard_json L input_file w = (Inr (documents_of L ls), ?w1)"
    using parse_file_eq [OF assms(1,2), of L] assms(3) by simp
  have "length (filter (valid L) (nonblank ls)) \<le> length (nonblank ls)" by simp
  then have c: "length (documents_of L ls) + length (errors_of L ls)
               + length (filter (\<lambda>l. strip l = []) ls) = length ls"
    using count_documents [of L ls] count_errors [of L ls] count_lines [of ls] by simp
  have "new_files = dom (files (snd (for_each (save_document L output_dir)
                                        (enumerate 0 (documents_of L ls)) ?w1)))
                      - dom (files ?w1)"
    using assms(5) by (simp add: parse_and_save_documents_def p)
  then have n: "finite new_files \<and> card new_files \<le> length (documents_of L ls)"
    using new_files_bound [of L output_dir "enumerate 0 (documents_of L ls)" ?w1] by simp
  from p c n show ?thesis using splitter_loads [OF assms(4), of input_file output_dir w] by simp
qed

theorem blank_lines_are_skipped_witness:
  \<open>parse_and_save_documents
       (sample_lib\<lparr>loads := lenient_loads\<rparr>)
       (lit ''export/a.json'') (lit ''output_a'')
       (sample_world (lit ''{"attributes": {}}\<newline>  \<newline>{oops''))
     = (Inr (),
        \<lparr>files = [lit ''export/a.json'' \<mapsto> lit ''{"attributes": {}}\<newline>  \<newline>{oops'',
                   lit ''output_a/document_1.json'' \<mapsto> lit ''{\<newline>    "attributes": {}\<newline>}''],
         stdout = [lit ''Error during parsing: Expecting value'' @ [0x5C] @ lit ''Object: {oops'',
                   lit ''Document saved: output_a/document_1.json''],
         logged = []\<rparr>)
   \<and> length (splitlines (universal_newlines (lit ''{"attributes": {}}\<newline>  \<newline>{oops''))) = 3\<close>
proof -
  let ?raw = \<open>lit ''{"attributes": {}}\<newline>  \<newline>{oops''\<close>
  have f: "files (sample_world ?raw) (lit ''export/a.json'') = Some ?raw"
    by (simp add: sample_world_sel)
  have u: "utf8_decode ?raw = Some ?raw"
    by (simp add: lit_def utf8_defs)
  have a: "\<forall>l. strip l \<noteq> [] \<longrightarrow> lenient_loads l = loads sample_lib l"
    by (simp add: sample_lib_sel lenient_loads_def)
  have r: \<open>parse_and_save_documents sample_lib (lit ''export/a.json'') (lit ''output_a'')
             (sample_world ?raw)
     = (Inr (),
        \<lparr>files = [lit ''export/a.json'' \<mapsto> lit ''{"attributes": {}}\<newline>  \<newline>{oops'',
                   lit ''output_a/document_1.json'' \<mapsto> lit ''{\<newline>    "attributes": {}\<newline>}''],
         stdout = [lit ''Error during parsing: Expecting value'' @ [0x5C] @ lit ''Object: {oops'',
                   lit ''Document saved: output_a/document_1.json''],
         logged = []\<rparr>)\<close>
    by (simp add: parse_and_save_documents_def reader_defs decoder_defs writer_defs encoder_defs
          utf8_defs sample_lib_sel sample_world_def)
  have n: "length (splitlines (universal_newlines ?raw)) = 3"
    by (simp add: lit_def linebreak_def)
  show ?thesis
    using blank_lines_are_skipped [OF f u refl a refl, of "lit ''output_a''"] r n by simp
qed

end
